theory Spec2Isabelle
  imports Complex_Main "HOL-Library.Char_ord" "HOL-Library.List_Lexorder"
begin

section \<open>The token HUD of pf2e-hud (src/hud/token.ts)\<close>

subsection \<open>Tokens, actors and the HUD state\<close>

text \<open>
  The actor types of the game system. \<open>isOfType\<close> compares the actor's type with the
  listed ones.
\<close>

datatype ActorType = Army | Character | Familiar | Hazard | Loot | Npc | Party | Vehicle

record sheet =
  rendered :: bool

record actor =
  actor_id :: nat
  isOwner :: bool
  actor_type :: ActorType
  actor_sheet :: sheet

definition isOfType :: "'z actor_scheme \<Rightarrow> ActorType list \<Rightarrow> bool" where
  "isOfType a types = (actor_type a \<in> set types)"

text \<open>
  A token of the scene; its actor may be missing (\<open>token?.actor\<close>). The document
  holds the name and the size in grid units, the bounds the place on the canvas.
  Numbers are reals.
\<close>

record TokenDocument =
  doc_name :: string
  doc_width :: real
  doc_height :: real

record Rectangle =
  bounds_left :: real
  bounds_top :: real

record TokenPF2e =
  token_id :: nat
  actor :: "actor option"
  document :: TokenDocument
  bounds :: Rectangle

type_synonym SidebarName = string

text \<open>
  The calls that the methods of \<open>PF2eHudToken\<close> issue on the base classes
  (\<open>this.close()\<close>, \<open>this.toggleSidebar(..)\<close>, \<open>super.setToken(..)\<close>).
\<close>

datatype base_call =
    Close
  | ToggleSidebar "SidebarName option"
  | SuperSetToken "TokenPF2e option"

text \<open>
  The state of the HUD: the tracked token (the slot of the base class), the sidebar that
  is showing, and the history of the base-class calls issued so far.
\<close>

record hud =
  token :: "TokenPF2e option"
  sidebar :: "SidebarName option"
  issued :: "base_call list"

text \<open>
  Modelled from the spec: \<open>toggleSidebar\<close> of \<open>makeAdvancedHUD\<close> (base/advanced, not
  among the sources). Section 4.4: if the name equals the sidebar that is showing, it is
  closed; null forces None; any other name switches to that sidebar.
\<close>

definition toggleSidebar :: "SidebarName option \<Rightarrow> hud \<Rightarrow> hud" where
  "toggleSidebar n h =
     (case n of
        None \<Rightarrow> h\<lparr>sidebar := None\<rparr>
      | Some s \<Rightarrow> if sidebar h = Some s then h\<lparr>sidebar := None\<rparr> else h\<lparr>sidebar := Some s\<rparr>)"

text \<open>
  Modelled from the spec: \<open>setToken\<close> of \<open>PF2eHudBaseToken\<close> (base/token, not among the
  sources). Section 4.1: null is the transition to Closed, a token the transition to Open
  with that token; section 3: closing the main HUD forces the sidebar to None.
\<close>

definition super_setToken :: "TokenPF2e option \<Rightarrow> hud \<Rightarrow> hud" where
  "super_setToken t h =
     (case t of
        None \<Rightarrow> h\<lparr>token := None, sidebar := None\<rparr>
      | Some tk \<Rightarrow> h\<lparr>token := Some tk\<rparr>)"

text \<open>
  Modelled from the spec: \<open>close\<close> of the application base class (not among the sources).
  Section 4.1: the transition to Closed without validation; section 3: the sidebar is
  forced to None.
\<close>

definition close :: "hud \<Rightarrow> hud" where
  "close h = h\<lparr>token := None, sidebar := None\<rparr>"

text \<open>Issuing a base-class call: it is recorded in the history and takes effect.\<close>

fun effect :: "base_call \<Rightarrow> hud \<Rightarrow> hud" where
  "effect Close h = close h"
| "effect (ToggleSidebar n) h = toggleSidebar n h"
| "effect (SuperSetToken t) h = super_setToken t h"

definition perform :: "base_call \<Rightarrow> hud \<Rightarrow> hud" where
  "perform c h = effect c (h\<lparr>issued := issued h @ [c]\<rparr>)"

subsection \<open>Settings\<close>

datatype TokenCloseOption = Never | Sidebar | All

datatype CloseSetting = CloseOnSendToChat | CloseOnSpell

datatype hud_mode = Exploded | Left | Right

record TokenSettings =
  mode :: hud_mode
  scaleDimensions :: bool
  closeAllOnCLick :: bool
  closeOnSendToChat :: TokenCloseOption
  closeOnSpell :: TokenCloseOption

fun getCloseSetting :: "TokenSettings \<Rightarrow> CloseSetting \<Rightarrow> TokenCloseOption" where
  "getCloseSetting st CloseOnSendToChat = closeOnSendToChat st"
| "getCloseSetting st CloseOnSpell = closeOnSpell st"

subsection \<open>setToken, closeIf and the canvas click\<close>

text \<open>
  \<open>PF2eHudToken.setToken\<close>. The parameter \<open>persistent\<close> is
  \<open>hud.persistent.isCurrentActor(actor, true)\<close>, the test of the persistent HUD.
  A missing actor makes \<open>!actor?.isOwner\<close> true.
\<close>

definition setToken :: "(actor \<Rightarrow> bool) \<Rightarrow> TokenPF2e option \<Rightarrow> hud \<Rightarrow> hud" where
  "setToken persistent tk h0 =
     (let h = perform (ToggleSidebar None) h0 in
      case tk of
        None \<Rightarrow> perform (SuperSetToken None) h
      | Some t \<Rightarrow>
          (let tk' =
             (if (case actor t of
                    None \<Rightarrow> True
                  | Some a \<Rightarrow>
                      \<not> isOwner a \<or> isOfType a [Loot, Party] \<or> rendered (actor_sheet a)
                      \<or> persistent a)
              then None else Some t)
           in perform (SuperSetToken tk') h))"

text \<open>
  \<open>PF2eHudToken.closeIf\<close>. \<open>eventToSetting\<close> (base/advanced) is a parameter. The result
  is the new state and the returned boolean.
\<close>

definition closeIf :: "TokenSettings \<Rightarrow> ('e \<Rightarrow> CloseSetting) \<Rightarrow> 'e \<Rightarrow> hud \<Rightarrow> hud \<times> bool" where
  "closeIf st eventToSetting event h =
     (let settingKey = eventToSetting event;
          setting = getCloseSetting st settingKey
      in if setting = Never then (h, False)
         else if setting = All then (perform Close h, True)
         else if setting = Sidebar then (perform (ToggleSidebar None) h, True)
         else (h, True))"

text \<open>
  \<open>document.activeElement\<close> as far as \<open>#clickClose\<close> looks at it; \<open>blur()\<close> hands the
  focus back to the document body.
\<close>

datatype active_element = HTMLInputElement | HTMLTextAreaElement | OtherElement

text \<open>\<open>PF2eHudToken.#clickClose\<close>, run on every left click on the token layer.\<close>

definition clickClose :: "TokenSettings \<Rightarrow> active_element \<Rightarrow> hud \<Rightarrow> hud \<times> active_element" where
  "clickClose st focused h =
     (if closeAllOnCLick st then (perform Close h, focused)
      else if focused = HTMLInputElement \<or> focused = HTMLTextAreaElement
        then (h, OtherElement)
      else if sidebar h \<noteq> None then (perform (ToggleSidebar None) h, focused)
      else (perform Close h, focused))"

text \<open>The operations of a sequence of \<open>setToken\<close> and \<open>close\<close> calls.\<close>

datatype hud_op = SetToken "TokenPF2e option" | CloseHud

fun run_op :: "(actor \<Rightarrow> bool) \<Rightarrow> hud_op \<Rightarrow> hud \<Rightarrow> hud" where
  "run_op p (SetToken tk) h = setToken p tk h"
| "run_op p CloseHud h = perform Close h"

fun run_ops :: "(actor \<Rightarrow> bool) \<Rightarrow> hud_op list \<Rightarrow> hud \<Rightarrow> hud" where
  "run_ops p [] h = h"
| "run_ops p (x # xs) h = run_ops p xs (run_op p x h)"

definition initial :: hud where
  "initial = \<lparr>token = None, sidebar = None, issued = []\<rparr>"

subsection \<open>The render pipeline\<close>

text \<open>
  The context of the base class (\<open>super._prepareContext\<close>, base/token) and the context
  that \<open>_prepareContext\<close> builds from it. The providers \<open>getStatsHeader\<close>,
  \<open>getAdvancedStats\<close>, \<open>getStatsHeaderExtras\<close> and \<open>getSidebars\<close> are parameters; of
  the stats header only \<open>health\<close> is looked at.
\<close>

record 'a TokenContextBase =
  hasActor :: bool
  ctx_actor :: 'a

record ('h, 'r) StatsHeader =
  health :: "'h option"
  header_other :: 'r

record ('a, 'h, 'r, 'v, 'x, 'm) TokenContext =
  parentData :: "'a TokenContextBase"
  statsHeader :: "('h, 'r) StatsHeader"
  statsAdvanced :: 'v
  statsHeaderExtras :: 'x
  sidebars :: 'm
  name :: string

datatype ('a, 'h, 'r, 'v, 'x, 'm) prepared =
    Base "'a TokenContextBase"
  | Full "('a, 'h, 'r, 'v, 'x, 'm) TokenContext"

text \<open>\<open>PF2eHudToken._prepareContext\<close>; \<open>tk\<close> is \<open>this.token\<close>.\<close>

definition prepareContext ::
  "('a \<Rightarrow> ('h, 'r) StatsHeader) \<Rightarrow> ('a \<Rightarrow> 'v) \<Rightarrow> ('a \<Rightarrow> 'x) \<Rightarrow> ('a \<Rightarrow> 'm) \<Rightarrow>
   TokenPF2e \<Rightarrow> 'a TokenContextBase \<Rightarrow> ('a, 'h, 'r, 'v, 'x, 'm) prepared" where
  "prepareContext getStatsHeader getAdvancedStats getStatsHeaderExtras getSidebars tk pd =
     (if \<not> hasActor pd then Base pd
      else
        (let a = ctx_actor pd;
             sh = getStatsHeader a
         in if health sh = None then Base pd
            else Full \<lparr>parentData = pd, statsHeader = sh,
                       statsAdvanced = getAdvancedStats a,
                       statsHeaderExtras = getStatsHeaderExtras a,
                       sidebars = getSidebars a,
                       name = doc_name (document tk)\<rparr>))"

text \<open>
  Markup in parsed form: the nodes that the string stands for; the empty string is the
  empty list. An input carries its \<open>name\<close> attribute.
\<close>

datatype html = Input string | Element "string list" "html list"

fun inputs_of :: "html \<Rightarrow> string list" where
  "inputs_of (Input n) = [n]"
| "inputs_of (Element cs ch) = concat (map inputs_of ch)"

fun context_health :: "('a, 'h, 'r, 'v, 'x, 'm) prepared \<Rightarrow> 'h option" where
  "context_health (Base pd) = None"
| "context_health (Full c) = health (statsHeader c)"

text \<open>\<open>PF2eHudToken._renderHTML\<close>; \<open>renderTemplate\<close> is a parameter.\<close>

definition renderHTML ::
  "(('a, 'h, 'r, 'v, 'x, 'm) prepared \<Rightarrow> html list) \<Rightarrow> ('a, 'h, 'r, 'v, 'x, 'm) prepared \<Rightarrow>
   html list" where
  "renderHTML renderTemplate context =
     (if context_health context = None then [] else renderTemplate context)"

text \<open>
  The part of the page that \<open>_replaceHTML\<close> works on. An element has an identity
  (\<open>uid\<close>), classes and children. \<open>content\<close> holds the children of the application's
  content element, which is part of the document; \<open>mainElement\<close> is the private field
  \<open>#mainElement\<close>. \<open>activeElement\<close> is the focused input, given by the element that
  holds it and its index among the inputs of that element in document order; None
  stands for the document body.
\<close>

record element =
  uid :: nat
  classList :: "string list"
  children :: "html list"

record page =
  content :: "element list"
  content_font_size :: "real option"
  mainElement :: "element option"
  activeElement :: "(nat \<times> nat) option"
  next_uid :: nat

definition element_inputs :: "element \<Rightarrow> string list" where
  "element_inputs e = concat (map inputs_of (children e))"

text \<open>\<open>oldElement?.querySelector("input:focus")?.name\<close>\<close>

definition focused_name :: "page \<Rightarrow> element option \<Rightarrow> string option" where
  "focused_name pg old =
     (case old of
        None \<Rightarrow> None
      | Some e \<Rightarrow>
          (case activeElement pg of
             None \<Rightarrow> None
           | Some (u, i) \<Rightarrow>
               if u = uid e \<and> i < length (element_inputs e)
               then Some (element_inputs e ! i) else None))"

text \<open>Index of the first element equal to \<open>n\<close>, for \<open>querySelector\<close> by name.\<close>

fun first_index :: "string list \<Rightarrow> string \<Rightarrow> nat option" where
  "first_index [] n = None"
| "first_index (x # xs) n =
     (if x = n then Some 0 else map_option Suc (first_index xs n))"

text \<open>
  \<open>HTMLElement.focus()\<close>: an element that is not connected to the document is not
  focusable, and the call leaves the active element as it is.
\<close>

definition focus :: "nat \<times> nat \<Rightarrow> page \<Rightarrow> page" where
  "focus target pg =
     (if fst target \<in> set (map uid (content pg))
      then pg\<lparr>activeElement := Some target\<rparr> else pg)"

text \<open>
  \<open>oldElement.replaceWith(new)\<close>: the new element takes the place of the old one among
  the children of its parent; an input of the removed subtree loses the focus.
\<close>

definition replaceWith :: "element \<Rightarrow> element \<Rightarrow> page \<Rightarrow> page" where
  "replaceWith old new pg =
     pg\<lparr>content := map (\<lambda>e. if uid e = uid old then new else e) (content pg),
        activeElement :=
          (case activeElement pg of
             None \<Rightarrow> None
           | Some (u, i) \<Rightarrow>
               if u = uid old \<and> uid old \<in> set (map uid (content pg)) then None
               else Some (u, i))\<rparr>"

definition appendChild :: "element \<Rightarrow> page \<Rightarrow> page" where
  "appendChild new pg = pg\<lparr>content := content pg @ [new]\<rparr>"

text \<open>
  \<open>PF2eHudToken._replaceHTML\<close>. The names of the inputs are those of the template, free
  of quotes, so the attribute selector is the equality of names. The listeners added at
  the end keep no state.
\<close>

definition replaceHTML :: "TokenSettings \<Rightarrow> real \<Rightarrow> html list \<Rightarrow> page \<Rightarrow> page" where
  "replaceHTML st fontSize result pg0 =
     (let pg1 = pg0\<lparr>content_font_size := Some fontSize\<rparr>;
          oldElement = mainElement pg1;
          focusName = focused_name pg1 oldElement;
          created = \<lparr>uid = next_uid pg1, classList = [], children = result\<rparr>;
          new =
            (if mode st = Exploded then created\<lparr>classList := classList created @ [''exploded'']\<rparr>
             else
               (let classes = [''joined''] @ (if mode st = Left then [''left''] else [])
                in created\<lparr>children := [Element classes (children created)]\<rparr>));
          pg2 = pg1\<lparr>mainElement := Some new, next_uid := Suc (next_uid pg1)\<rparr>;
          pg3 =
            (case focusName of
               None \<Rightarrow> pg2
             | Some n \<Rightarrow>
                 if n = [] then pg2
                 else
                   (case first_index (element_inputs new) n of
                      None \<Rightarrow> pg2
                    | Some j \<Rightarrow> focus (uid new, j) pg2))
      in case oldElement of
           Some old \<Rightarrow> replaceWith old new pg3
         | None \<Rightarrow> appendChild new pg3)"

text \<open>
  A render of the open HUD: the host application runs the three hooks in this order.
\<close>

definition render ::
  "('a \<Rightarrow> ('h, 'r) StatsHeader) \<Rightarrow> ('a \<Rightarrow> 'v) \<Rightarrow> ('a \<Rightarrow> 'x) \<Rightarrow> ('a \<Rightarrow> 'm) \<Rightarrow>
   (('a, 'h, 'r, 'v, 'x, 'm) prepared \<Rightarrow> html list) \<Rightarrow> TokenSettings \<Rightarrow> real \<Rightarrow>
   TokenPF2e \<Rightarrow> 'a TokenContextBase \<Rightarrow> page \<Rightarrow> page" where
  "render getStatsHeader getAdvancedStats getStatsHeaderExtras getSidebars renderTemplate
      st fontSize tk pd pg =
     replaceHTML st fontSize
       (renderHTML renderTemplate
          (prepareContext getStatsHeader getAdvancedStats getStatsHeaderExtras getSidebars tk pd))
       pg"

text \<open>The main element, if any, is the one child of the content element.\<close>

definition mounted :: "page \<Rightarrow> bool" where
  "mounted pg =
     ((case mainElement pg of None \<Rightarrow> content pg = [] | Some e \<Rightarrow> content pg = [e])
      \<and> list_all (\<lambda>e. uid e < next_uid pg) (content pg))"

subsection \<open>Positioning\<close>

record Point =
  point_x :: real
  point_y :: real

record CanvasDimensions =
  dim_width :: real
  dim_height :: real
  dim_size :: real

text \<open>
  What \<open>_updatePosition\<close> reads of the canvas: \<open>canvas.primary.getGlobalPosition()\<close>,
  \<open>canvas.dimensions\<close> and \<open>canvas.stage.scale.x\<close>.
\<close>

record Canvas =
  primary_globalPosition :: Point
  dimensions :: CanvasDimensions
  stage_scale_x :: real

record ApplicationPosition =
  pos_left :: "real option"
  pos_top :: "real option"
  pos_width :: "real option"
  pos_height :: "real option"
  pos_scale :: "real option"
  pos_zIndex :: "real option"

text \<open>The inline style of an element: lengths in px, and the scale of the transform.\<close>

record style =
  style_left :: "real option"
  style_top :: "real option"
  style_width :: "real option"
  style_height :: "real option"
  style_transform :: "real option"

text \<open>
  The styles of \<open>this.element\<close> and of the main element, each None while the element
  does not exist.
\<close>

record view =
  element_style :: "style option"
  mainElement_style :: "style option"

text \<open>\<open>PF2eHudToken._updatePosition\<close>; \<open>tk\<close> is \<open>this.token\<close>.\<close>

definition updatePosition ::
  "Canvas \<Rightarrow> TokenSettings \<Rightarrow> TokenPF2e option \<Rightarrow> view \<Rightarrow> ApplicationPosition \<Rightarrow>
   view \<times> ApplicationPosition" where
  "updatePosition canvas st tk v position =
     (case (element_style v, tk) of
        (None, _) \<Rightarrow> (v, position)
      | (_, None) \<Rightarrow> (v, position)
      | (Some es, Some t) \<Rightarrow>
          (let canvasPosition = primary_globalPosition canvas;
               canvasDimensions = dimensions canvas;
               scale = stage_scale_x canvas;
               usedScale = (if scaleDimensions st then 1 else scale);
               position' = position\<lparr>
                 pos_left := Some (point_x canvasPosition),
                 pos_top := Some (point_y canvasPosition),
                 pos_width := Some (dim_width canvasDimensions),
                 pos_height := Some (dim_height canvasDimensions),
                 pos_scale := Some (if scaleDimensions st then scale else 1)\<rparr>;
               es' = es\<lparr>
                 style_left := Some (point_x canvasPosition),
                 style_top := Some (point_y canvasPosition),
                 style_width := Some (dim_width canvasDimensions * usedScale),
                 style_height := Some (dim_height canvasDimensions * usedScale),
                 style_transform := pos_scale position'\<rparr>;
               ms' =
                 (case mainElement_style v of
                    None \<Rightarrow> None
                  | Some ms \<Rightarrow>
                      (let ratio = dim_size (dimensions canvas) / 100;
                           mainLeft = bounds_left (bounds t) * usedScale;
                           mainTop = bounds_top (bounds t) * usedScale;
                           mainWidth = doc_width (document t) * ratio * 100 * usedScale;
                           mainHeight = doc_height (document t) * ratio * 100 * usedScale
                       in Some (ms\<lparr>
                            style_left := Some mainLeft,
                            style_top := Some mainTop,
                            style_width := Some mainWidth,
                            style_height := Some mainHeight\<rparr>)))
           in (\<lparr>element_style = Some es', mainElement_style = ms'\<rparr>, position')))"


section \<open>The actions sidebar (PF2eHudSidebarActions)\<close>

subsection \<open>Items and the actor of the sidebar\<close>

datatype ActionType = Action | Reaction | Free | Passive | Exploration

text \<open>The table \<open>ACTION_TYPES\<close>.\<close>

fun ACTION_TYPES_sort :: "ActionType \<Rightarrow> nat" where
  "ACTION_TYPES_sort Action = 0"
| "ACTION_TYPES_sort Reaction = 1"
| "ACTION_TYPES_sort Free = 2"
| "ACTION_TYPES_sort Passive = 3"
| "ACTION_TYPES_sort Exploration = 3"

fun ACTION_TYPES_label :: "ActionType \<Rightarrow> string" where
  "ACTION_TYPES_label Action = ''PF2E.ActionsActionsHeader''"
| "ACTION_TYPES_label Reaction = ''PF2E.ActionsReactionsHeader''"
| "ACTION_TYPES_label Free = ''PF2E.ActionsFreeActionsHeader''"
| "ACTION_TYPES_label Passive = ''PF2E.NPC.PassivesLabel''"
| "ACTION_TYPES_label Exploration = ''PF2E.TravelSpeed.ExplorationActivity''"

text \<open>The type of an action cost is one of "action", "reaction" and "free".\<close>

datatype ActionCostType = CostAction | CostReaction | CostFree

fun cost_section :: "ActionCostType \<Rightarrow> ActionType" where
  "cost_section CostAction = Action"
| "cost_section CostReaction = Reaction"
| "cost_section CostFree = Free"

record ActionCost =
  cost_type :: ActionCostType
  cost_value :: "nat option"

text \<open>A frequency counts uses: \<open>max\<close> and \<open>value\<close> are integers.\<close>

record Frequency =
  freq_max :: int
  freq_value :: int
  freq_per :: string

datatype ItemType = FeatItem | ActionItem | OtherItem

text \<open>
  An item of an actor, with what the sidebar reads of it; \<open>compendiumSource\<close> is
  \<open>_stats.compendiumSource\<close>, \<open>selfEffect\<close> the truth value of \<open>system.selfEffect\<close>.
\<close>

record item =
  item_id :: string
  item_name :: string
  item_type :: ItemType
  slug :: "string option"
  compendiumSource :: "string option"
  item_sourceId :: "string option"
  actionCost :: "ActionCost option"
  traits :: "string list"
  frequency :: "Frequency option"
  selfEffect :: bool

text \<open>
  The actor as the sidebar reads it: the truth value of \<open>flags.pf2e.kineticist\<close>, the
  slugs of its effect items, the number of its parties, the ids of its exploration
  activities and its action and feat items.
\<close>

record ActorPF2e = actor +
  flags_kineticist :: bool
  effect_slugs :: "string option list"
  parties_size :: nat
  exploration :: "string list"
  itemTypes_action :: "item list"
  itemTypes_feat :: "item list"

record StanceData =
  stance_name :: string
  actionUUID :: string

text \<open>
  The optional module pf2e-toolbelt: its settings and the stances it reports for the
  actor. Whether it finds a macro for an item is a separate parameter.
\<close>

record toolbelt =
  stances_enabled :: bool
  stances_getStances :: "StanceData list"
  actionable_enabled :: bool
  actionable_message :: bool

text \<open>\<open>actorItems(actor, types)\<close> yields the items of the listed types, type by type.\<close>

fun itemTypes :: "ActorPF2e \<Rightarrow> ItemType \<Rightarrow> item list" where
  "itemTypes a ActionItem = itemTypes_action a"
| "itemTypes a FeatItem = itemTypes_feat a"
| "itemTypes a OtherItem = []"

definition actorItems :: "ActorPF2e \<Rightarrow> ItemType list \<Rightarrow> item list" where
  "actorItems a types = concat (map (itemTypes a) types)"

subsection \<open>The action sections of the context\<close>

record ActionData =
  ad_id :: string
  ad_usage :: "bool option"
  ad_frequency :: "(int \<times> int) option"
  ad_name :: string
  ad_isActive :: bool

record ActionSection =
  sec_type :: ActionType
  sec_label :: string
  sec_actions :: "ActionData list"

text \<open>The stances of the context: None unless a character with the module's stances.\<close>

definition stances :: "toolbelt option \<Rightarrow> ActorPF2e \<Rightarrow> StanceData list option" where
  "stances tb a =
     (case tb of
        None \<Rightarrow> None
      | Some t \<Rightarrow>
          if \<not> isOfType a [Character] \<or> \<not> stances_enabled t then None
          else Some (sort_key stance_name (stances_getStances t)))"

definition excludedUUIDS :: "toolbelt option \<Rightarrow> ActorPF2e \<Rightarrow> string list" where
  "excludedUUIDS tb a =
     (case stances tb a of None \<Rightarrow> [] | Some st \<Rightarrow> map actionUUID st)"

definition hasKineticAura :: "ActorPF2e \<Rightarrow> bool" where
  "hasKineticAura a =
     (isOfType a [Character] \<and> flags_kineticist a
      \<and> find (\<lambda>x. x = Some ''effect-kinetic-aura'') (effect_slugs a) \<noteq> None)"

definition inParty :: "ActorPF2e \<Rightarrow> bool" where
  "inParty a = (if isOfType a [Character] then parties_size a > 0 else False)"

definition explorations :: "ActorPF2e \<Rightarrow> string list" where
  "explorations a = (if isOfType a [Character] then exploration a else [])"

text \<open>\<open>ability._stats.compendiumSource ?? ability.sourceId\<close>\<close>

definition sourceId :: "item \<Rightarrow> string option" where
  "sourceId ability =
     (case compendiumSource ability of Some s \<Rightarrow> Some s | None \<Rightarrow> item_sourceId ability)"

definition isExploration :: "ActorPF2e \<Rightarrow> item \<Rightarrow> bool" where
  "isExploration a ability = (isOfType a [Character] \<and> ''exploration'' \<in> set (traits ability))"

text \<open>The condition of the \<open>continue\<close>; an empty source id is falsy.\<close>

definition skipped :: "toolbelt option \<Rightarrow> ActorPF2e \<Rightarrow> item \<Rightarrow> bool" where
  "skipped tb a ability =
     ((slug ability = Some ''elemental-blast'' \<and> hasKineticAura a)
      \<or> (case sourceId ability of
            None \<Rightarrow> False
          | Some s \<Rightarrow> s \<noteq> [] \<and> s \<in> set (excludedUUIDS tb a))
      \<or> (item_type ability = FeatItem \<and> actionCost ability = None)
      \<or> ''downtime'' \<in> set (traits ability)
      \<or> (\<not> inParty a \<and> isExploration a ability))"

definition section_type :: "ActorPF2e \<Rightarrow> item \<Rightarrow> ActionType" where
  "section_type a ability =
     (case actionCost ability of
        Some c \<Rightarrow> cost_section (cost_type c)
      | None \<Rightarrow>
          if isOfType a [Character]
          then (if isExploration a ability then Exploration else Free)
          else Passive)"

text \<open>The frequency shown: none unless \<open>frequency.max\<close> is set and not zero.\<close>

definition shown_frequency :: "item \<Rightarrow> (int \<times> int) option" where
  "shown_frequency ability =
     (case frequency ability of
        None \<Rightarrow> None
      | Some f \<Rightarrow> if freq_max f = 0 then None else Some (freq_max f, freq_value f))"

definition usage :: "toolbelt option \<Rightarrow> (item \<Rightarrow> bool) \<Rightarrow> ActorPF2e \<Rightarrow> item \<Rightarrow> bool option" where
  "usage tb getActionMacro a ability =
     (let actionableEnabled = (case tb of None \<Rightarrow> False | Some t \<Rightarrow> actionable_enabled t)
      in if isExploration a ability then None
         else if shown_frequency ability = None \<and> \<not> selfEffect ability
                 \<and> (\<not> actionableEnabled \<or> \<not> getActionMacro ability)
         then None
         else Some (case shown_frequency ability of
                      None \<Rightarrow> False
                    | Some (m, v) \<Rightarrow> v = 0))"

text \<open>
  The entry pushed for an ability. The icon and the localised labels come from helpers
  of the host and are not part of the model.
\<close>

definition action_data :: "toolbelt option \<Rightarrow> (item \<Rightarrow> bool) \<Rightarrow> ActorPF2e \<Rightarrow> item \<Rightarrow> ActionData" where
  "action_data tb getActionMacro a ability =
     \<lparr>ad_id = item_id ability,
      ad_usage = usage tb getActionMacro a ability,
      ad_frequency = shown_frequency ability,
      ad_name = item_name ability,
      ad_isActive = (isExploration a ability \<and> item_id ability \<in> set (explorations a))\<rparr>"

text \<open>
  The object \<open>sections\<close> keeps its keys in the order of their first use:
  \<open>sections[type] ??= {..}\<close> followed by \<open>sections[type].actions.push(..)\<close>.
\<close>

fun push_action :: "ActionType \<Rightarrow> ActionData \<Rightarrow> ActionSection list \<Rightarrow> ActionSection list" where
  "push_action t d [] = [\<lparr>sec_type = t, sec_label = ACTION_TYPES_label t, sec_actions = [d]\<rparr>]"
| "push_action t d (s # ss) =
     (if sec_type s = t then s\<lparr>sec_actions := sec_actions s @ [d]\<rparr> # ss
      else s # push_action t d ss)"

text \<open>The loop over the abilities.\<close>

fun collect ::
  "toolbelt option \<Rightarrow> (item \<Rightarrow> bool) \<Rightarrow> ActorPF2e \<Rightarrow> item list \<Rightarrow> ActionSection list \<Rightarrow>
   ActionSection list" where
  "collect tb gm a [] sections = sections"
| "collect tb gm a (ability # rest) sections =
     (if skipped tb a ability then collect tb gm a rest sections
      else collect tb gm a rest
             (push_action (section_type a ability) (action_data tb gm a ability) sections))"

text \<open>
  \<open>actionSections\<close> of \<open>PF2eHudSidebarActions._prepareContext\<close>: the loop over the
  items of the types \<open>abilityTypes\<close> (actions, and feats for a character), then the
  sections sorted by the sort number of their type and the actions of each sorted by
  name. \<open>R.sortBy\<close> is a stable sort; strings compare by their characters.
\<close>

definition abilityTypes :: "ActorPF2e \<Rightarrow> ItemType list" where
  "abilityTypes a = [ActionItem] @ (if isOfType a [Character] then [FeatItem] else [])"

definition actionSections ::
  "toolbelt option \<Rightarrow> (item \<Rightarrow> bool) \<Rightarrow> ActorPF2e \<Rightarrow> ActionSection list" where
  "actionSections tb gm a =
     (let sections = collect tb gm a (actorItems a (abilityTypes a)) []
      in map (\<lambda>x. x\<lparr>sec_actions := sort_key ad_name (sec_actions x)\<rparr>)
           (sort_key (\<lambda>x. ACTION_TYPES_sort (sec_type x)) sections))"

subsection \<open>The listeners of the sidebar\<close>

datatype handler_error = ErrorPF2e string

text \<open>
  The weapon of the resolved strike, as the handler reads it: its traits, the base damage
  type and the state of the double-barrel toggle.
\<close>

record weapon =
  weapon_traits :: "string list"
  damage_damageType :: string
  doubleBarrel_selected :: bool

text \<open>The button: \<open>dataset.trait\<close>, \<open>dataset.value\<close> and the class list.\<close>

record button =
  dataset_trait :: "string option"
  dataset_value :: "string option"
  button_classList :: "string list"

text \<open>The value of \<open>selected\<close> for the versatile trait.\<close>

datatype selection = Null | Undefined | Str string

datatype toggle_selected = SelectedFlag bool | SelectedType selection

text \<open>The argument of \<open>weapon.system.traits.toggles.update\<close>.\<close>

record toggle_update =
  update_trait :: string
  update_selected :: toggle_selected

text \<open>\<open>objectHasKey(CONFIG.PF2E.damageTypes, selected)\<close>; the keys are a parameter.\<close>

fun objectHasKey :: "string list \<Rightarrow> selection \<Rightarrow> bool" where
  "objectHasKey keys (Str s) = (s \<in> set keys)"
| "objectHasKey keys Null = False"
| "objectHasKey keys Undefined = False"

definition versatile_selected :: "weapon option \<Rightarrow> button \<Rightarrow> selection" where
  "versatile_selected w b =
     (let baseType = map_option damage_damageType w;
          v = dataset_value b
      in if ''selected'' \<in> set (button_classList b) \<or> (v \<noteq> None \<and> v = baseType) then Null
         else (case v of None \<Rightarrow> Undefined | Some s \<Rightarrow> Str s))"

text \<open>
  The case "toggle-weapon-trait" of the click listener; \<open>w\<close> is the item of the strike
  that \<open>getStrike\<close> resolves, if any.
\<close>

definition toggleWeaponTrait ::
  "string list \<Rightarrow> weapon option \<Rightarrow> button \<Rightarrow> handler_error + toggle_update" where
  "toggleWeaponTrait damageTypes w b =
     (let trait = dataset_trait b;
          errorMessage = ''Unexpected failure while toggling weapon trait''
      in if trait = Some ''double-barrel'' then
           (case w of
              None \<Rightarrow> Inl (ErrorPF2e errorMessage)
            | Some wp \<Rightarrow>
                if ''double-barrel'' \<notin> set (weapon_traits wp) then Inl (ErrorPF2e errorMessage)
                else Inr \<lparr>update_trait = ''double-barrel'',
                          update_selected = SelectedFlag (\<not> doubleBarrel_selected wp)\<rparr>)
         else if trait = Some ''versatile'' then
           (let selected = versatile_selected w b;
                selectionIsValid = (objectHasKey damageTypes selected \<or> selected = Null)
            in if w \<noteq> None \<and> selectionIsValid
               then Inr \<lparr>update_trait = ''versatile'', update_selected = SelectedType selected\<rparr>
               else Inl (ErrorPF2e errorMessage))
         else Inl (ErrorPF2e errorMessage))"

text \<open>
  What the case "use-action" does, in order: updates of the item, chat messages and the
  run of a macro.
\<close>

datatype use_effect =
    ItemUpdate string int
  | SelfEffectMessage string
  | MacroExecute string
  | ToMessage string

text \<open>\<open>item.update({"system.frequency.value": v})\<close> on the items of the actor.\<close>

definition update_frequency_value :: "string \<Rightarrow> int \<Rightarrow> item list \<Rightarrow> item list" where
  "update_frequency_value i v items =
     map (\<lambda>it. if item_id it = i
                then it\<lparr>frequency := map_option (\<lambda>f. f\<lparr>freq_value := v\<rparr>) (frequency it)\<rparr>
                else it) items"

text \<open>
  The case "use-action" of the click listener: \<open>items\<close> are the items of the actor,
  \<open>itemId\<close> comes from the row of the button. The result is the items after the call and
  the effects issued.
\<close>

definition useAction ::
  "toolbelt option \<Rightarrow> (item \<Rightarrow> bool) \<Rightarrow> item list \<Rightarrow> string \<Rightarrow> item list \<times> use_effect list" where
  "useAction tb getActionMacro items itemId =
     (case find (\<lambda>it. item_id it = itemId) items of
        None \<Rightarrow> (items, [])
      | Some it \<Rightarrow>
          if item_type it \<noteq> FeatItem \<and> item_type it \<noteq> ActionItem then (items, [])
          else
            (let decremented =
               (case frequency it of
                  None \<Rightarrow> None
                | Some f \<Rightarrow>
                    if freq_max f \<noteq> 0 \<and> freq_value f \<noteq> 0
                    then Some (freq_value f - 1) else None);
                 upd = (case decremented of None \<Rightarrow> [] | Some v \<Rightarrow> [ItemUpdate itemId v]);
                 items' =
                   (case decremented of
                      None \<Rightarrow> items
                    | Some v \<Rightarrow> update_frequency_value itemId v items)
             in if selfEffect it then (items', upd @ [SelfEffectMessage itemId])
                else
                  (let macro = (case tb of None \<Rightarrow> False | Some t \<Rightarrow> getActionMacro it);
                       ran = (if macro then [MacroExecute itemId] else []);
                       msg =
                         (if \<not> macro \<or> (case tb of None \<Rightarrow> False | Some t \<Rightarrow> actionable_message t)
                          then [ToMessage itemId] else [])
                   in (items', upd @ ran @ msg))))"

section \<open>Notions used in the statements\<close>

text \<open>
  What a call of \<open>_updatePosition\<close> writes: the five fields of the position, the five
  style properties of the element and the four of the main element.
\<close>

definition geometry :: "view \<times> ApplicationPosition \<Rightarrow> real option list" where
  "geometry r =
     [pos_left (snd r), pos_top (snd r), pos_width (snd r), pos_height (snd r), pos_scale (snd r)]
     @ (case element_style (fst r) of
          None \<Rightarrow> []
        | Some s \<Rightarrow> [style_left s, style_top s, style_width s, style_height s, style_transform s])
     @ (case mainElement_style (fst r) of
          None \<Rightarrow> []
        | Some s \<Rightarrow> [style_left s, style_top s, style_width s, style_height s])"

text \<open>The actions filed under a type, over all sections of that type.\<close>

definition acts :: "ActionType \<Rightarrow> ActionSection list \<Rightarrow> ActionData set" where
  "acts t ss = (\<Union>s \<in> {s \<in> set ss. sec_type s = t}. set (sec_actions s))"

definition sorted_names :: "ActionSection \<Rightarrow> ActionSection" where
  "sorted_names x = x\<lparr>sec_actions := sort_key ad_name (sec_actions x)\<rparr>"

subsection \<open>Sample data\<close>

definition sample_settings :: TokenSettings where
  "sample_settings = \<lparr>mode = Exploded, scaleDimensions = False, closeAllOnCLick = False,
     closeOnSendToChat = Never, closeOnSpell = Sidebar\<rparr>"

definition owned_actor :: actor where
  "owned_actor = \<lparr>actor_id = 1, isOwner = True, actor_type = Character,
     actor_sheet = \<lparr>rendered = False\<rparr>\<rparr>"

definition foreign_actor :: actor where
  "foreign_actor = \<lparr>actor_id = 2, isOwner = False, actor_type = Npc,
     actor_sheet = \<lparr>rendered = False\<rparr>\<rparr>"

definition owned_token :: TokenPF2e where
  "owned_token = \<lparr>token_id = 1, actor = Some owned_actor,
     document = \<lparr>doc_name = ''Amiri'', doc_width = 1, doc_height = 1\<rparr>,
     bounds = \<lparr>bounds_left = 200, bounds_top = 300\<rparr>\<rparr>"

definition foreign_token :: TokenPF2e where
  "foreign_token = \<lparr>token_id = 2, actor = Some foreign_actor,
     document = \<lparr>doc_name = ''Ogre'', doc_width = 2, doc_height = 2\<rparr>,
     bounds = \<lparr>bounds_left = 500, bounds_top = 100\<rparr>\<rparr>"

definition no_persistent :: "actor \<Rightarrow> bool" where
  "no_persistent a = False"

definition open_hud :: hud where
  "open_hud = \<lparr>token = Some owned_token, sidebar = Some ''actions'', issued = []\<rparr>"

definition event_setting :: "string \<Rightarrow> CloseSetting" where
  "event_setting e = (if e = ''cast-spell'' then CloseOnSpell else CloseOnSendToChat)"

definition old_main :: element where
  "old_main = \<lparr>uid = 0, classList = [''exploded''], children = [Input ''amount'']\<rparr>"

definition focused_page :: page where
  "focused_page = \<lparr>content = [old_main], content_font_size = Some 14,
     mainElement = Some old_main, activeElement = Some (0, 0), next_uid = 1\<rparr>"

definition no_health_header :: "nat \<Rightarrow> (nat, unit) StatsHeader" where
  "no_health_header a = \<lparr>health = None, header_other = ()\<rparr>"

definition no_block :: "nat \<Rightarrow> unit" where
  "no_block a = ()"

definition one_input_template :: "(nat, nat, unit, unit, unit, unit) prepared \<Rightarrow> html list" where
  "one_input_template c = [Input ''amount'']"

definition sample_canvas :: Canvas where
  "sample_canvas = \<lparr>primary_globalPosition = \<lparr>point_x = 10, point_y = 20\<rparr>,
     dimensions = \<lparr>dim_width = 4000, dim_height = 3000, dim_size = 100\<rparr>,
     stage_scale_x = 2\<rparr>"

definition empty_style :: style where
  "empty_style = \<lparr>style_left = None, style_top = None, style_width = None,
     style_height = None, style_transform = None\<rparr>"

definition stale_style :: style where
  "stale_style = \<lparr>style_left = Some 1, style_top = Some 2, style_width = Some 3,
     style_height = Some 4, style_transform = Some 5\<rparr>"

definition empty_position :: ApplicationPosition where
  "empty_position = \<lparr>pos_left = None, pos_top = None, pos_width = None, pos_height = None,
     pos_scale = None, pos_zIndex = None\<rparr>"

definition stale_position :: ApplicationPosition where
  "stale_position = \<lparr>pos_left = Some 7, pos_top = Some 7, pos_width = Some 7,
     pos_height = Some 7, pos_scale = Some 7, pos_zIndex = Some 7\<rparr>"

definition no_macro :: "item \<Rightarrow> bool" where
  "no_macro it = False"

definition blast_item :: item where
  "blast_item = \<lparr>item_id = ''blast'', item_name = ''Elemental Blast'', item_type = ActionItem,
     slug = Some ''elemental-blast'', compendiumSource = None, item_sourceId = None,
     actionCost = Some \<lparr>cost_type = CostAction, cost_value = Some 2\<rparr>, traits = [],
     frequency = None, selfEffect = False\<rparr>"

definition stance_item :: item where
  "stance_item = \<lparr>item_id = ''crane'', item_name = ''Crane Stance'', item_type = FeatItem,
     slug = Some ''crane-stance'', compendiumSource = Some ''Compendium.crane'',
     item_sourceId = None,
     actionCost = Some \<lparr>cost_type = CostAction, cost_value = Some 1\<rparr>, traits = [''stance''],
     frequency = None, selfEffect = True\<rparr>"

definition seek_item :: item where
  "seek_item = \<lparr>item_id = ''seek'', item_name = ''Seek'', item_type = ActionItem,
     slug = Some ''seek'', compendiumSource = None, item_sourceId = None,
     actionCost = Some \<lparr>cost_type = CostAction, cost_value = Some 1\<rparr>, traits = [],
     frequency = None, selfEffect = False\<rparr>"

definition step_item :: item where
  "step_item = \<lparr>item_id = ''step'', item_name = ''Step'', item_type = ActionItem,
     slug = Some ''step'', compendiumSource = None, item_sourceId = None,
     actionCost = Some \<lparr>cost_type = CostAction, cost_value = Some 1\<rparr>, traits = [],
     frequency = None, selfEffect = False\<rparr>"

definition aid_item :: item where
  "aid_item = \<lparr>item_id = ''aid'', item_name = ''Aid'', item_type = ActionItem,
     slug = Some ''aid'', compendiumSource = None, item_sourceId = None,
     actionCost = Some \<lparr>cost_type = CostReaction, cost_value = None\<rparr>, traits = [],
     frequency = Some \<lparr>freq_max = 3, freq_value = 2, freq_per = ''day''\<rparr>,
     selfEffect = False\<rparr>"

definition sample_toolbelt :: toolbelt where
  "sample_toolbelt = \<lparr>stances_enabled = True,
     stances_getStances = [\<lparr>stance_name = ''Crane Stance'', actionUUID = ''Compendium.crane''\<rparr>],
     actionable_enabled = False, actionable_message = False\<rparr>"

definition kineticist :: ActorPF2e where
  "kineticist = \<lparr>actor_id = 1, isOwner = True, actor_type = Character,
     actor_sheet = \<lparr>rendered = False\<rparr>, flags_kineticist = True,
     effect_slugs = [Some ''effect-kinetic-aura''], parties_size = 0, exploration = [],
     itemTypes_action = [aid_item, step_item, seek_item, blast_item], itemTypes_feat = [stance_item]\<rparr>"

definition aura_npc :: ActorPF2e where
  "aura_npc = \<lparr>actor_id = 2, isOwner = True, actor_type = Npc,
     actor_sheet = \<lparr>rendered = False\<rparr>, flags_kineticist = False,
     effect_slugs = [Some ''effect-kinetic-aura''], parties_size = 0, exploration = [],
     itemTypes_action = [blast_item], itemTypes_feat = []\<rparr>"

definition musket :: weapon where
  "musket = \<lparr>weapon_traits = [''concussive''], damage_damageType = ''piercing'',
     doubleBarrel_selected = False\<rparr>"

definition double_barrel_button :: button where
  "double_barrel_button = \<lparr>dataset_trait = Some ''double-barrel'', dataset_value = None,
     button_classList = []\<rparr>"

definition versatile_button :: button where
  "versatile_button = \<lparr>dataset_trait = Some ''versatile'', dataset_value = Some ''slashing'',
     button_classList = []\<rparr>"

section \<open>Properties of the token HUD\<close>

subsection \<open>Effects of the base-class calls\<close>

lemma sidebar_perform_toggle_None: "sidebar (perform (ToggleSidebar None) h) = None"
  by (simp add: perform_def toggleSidebar_def)

lemma token_perform_toggle: "token (perform (ToggleSidebar n) h) = token h"
  by (simp add: perform_def toggleSidebar_def split: option.splits)

lemma issued_perform: "issued (perform c h) = issued h @ [c]"
  by (cases c) (simp_all add: perform_def close_def toggleSidebar_def super_setToken_def split: option.splits)

lemma perform_Close_fields: "token (perform Close h) = None" "sidebar (perform Close h) = None"
  by (simp_all add: perform_def close_def)

lemma perform_super_fields:
  "token (perform (SuperSetToken t) h) = t"
  "sidebar (perform (SuperSetToken t) h) = (if t = None then None else sidebar h)"
  by (simp_all add: perform_def super_setToken_def split: option.splits)

lemma sidebar_setToken: "sidebar (setToken p tk h) = None"
  by (simp add: setToken_def Let_def perform_super_fields sidebar_perform_toggle_None split: option.splits)

lemma sidebar_run_op: "sidebar (run_op p x h) = None"
  by (cases x) (simp_all add: sidebar_setToken perform_Close_fields)

lemma run_ops_append: "run_ops p (xs @ ys) h = run_ops p ys (run_ops p xs h)"
  by (induction xs arbitrary: h) simp_all

lemma sidebar_run_ops: "ops \<noteq> [] \<Longrightarrow> sidebar (run_ops p ops h) = None"
proof (induction ops rule: rev_induct)
  case Nil
  then show ?case by simp
next
  case (snoc x xs)
  show ?case by (simp add: run_ops_append sidebar_run_op)
qed

subsection \<open>Selection of a token\<close>

text \<open>
  Claim C1. A candidate token whose actor is missing or not owned by the user, is of type
  loot or party, has its sheet rendered, or is the actor of the persistent HUD, makes
  \<open>setToken\<close> do exactly what \<open>setToken(null)\<close> does: the HUD ends closed, with no
  sidebar, and the model has no error branch. Any other candidate ends up as the
  tracked token.
\<close>

theorem setToken_downgrade:
  "((\<forall>a. actor t = Some a \<longrightarrow>
        \<not> isOwner a \<or> actor_type a = Loot \<or> actor_type a = Party
        \<or> rendered (actor_sheet a) \<or> persistent a) \<longrightarrow>
      setToken persistent (Some t) h = setToken persistent None h
      \<and> token (setToken persistent (Some t) h) = None
      \<and> sidebar (setToken persistent (Some t) h) = None)
   \<and> ((\<exists>a. actor t = Some a \<and> isOwner a \<and> actor_type a \<noteq> Loot \<and> actor_type a \<noteq> Party
            \<and> \<not> rendered (actor_sheet a) \<and> \<not> persistent a) \<longrightarrow>
        token (setToken persistent (Some t) h) = Some t
        \<and> sidebar (setToken persistent (Some t) h) = None)"
  by (cases "actor t")
     (auto simp add: setToken_def Let_def isOfType_def perform_super_fields
        sidebar_perform_toggle_None)

theorem setToken_downgrade_witness:
  "setToken no_persistent (Some foreign_token) open_hud = setToken no_persistent None open_hud
   \<and> token (setToken no_persistent (Some foreign_token) open_hud) = None
   \<and> token (setToken no_persistent (Some owned_token) initial) = Some owned_token"
proof -
  have c: "\<forall>a. actor foreign_token = Some a \<longrightarrow>
        \<not> isOwner a \<or> actor_type a = Loot \<or> actor_type a = Party
        \<or> rendered (actor_sheet a) \<or> no_persistent a"
    by (simp add: foreign_token_def foreign_actor_def)
  have d: "\<exists>a. actor owned_token = Some a \<and> isOwner a \<and> actor_type a \<noteq> Loot
        \<and> actor_type a \<noteq> Party \<and> \<not> rendered (actor_sheet a) \<and> \<not> no_persistent a"
    by (simp add: owned_token_def owned_actor_def no_persistent_def)
  from c d
    setToken_downgrade [where t = foreign_token and persistent = no_persistent and h = open_hud]
    setToken_downgrade [where t = owned_token and persistent = no_persistent and h = initial]
  show ?thesis by blast
qed

text \<open>
  Claim C2. A state in which a showing sidebar implies a tracked token keeps that
  property under every sequence of \<open>setToken\<close> and \<open>close\<close> calls. Every \<open>setToken\<close> is
  \<open>toggleSidebar(null)\<close>, which leaves no sidebar, followed by the call of the base
  class; and a sequence that ends in \<open>close()\<close> or \<open>setToken(null)\<close> leaves neither a
  sidebar nor a token.
\<close>

theorem sidebar_invariant:
  assumes "sidebar h \<noteq> None \<longrightarrow> token h \<noteq> None"
  shows "(sidebar (run_ops p ops h) \<noteq> None \<longrightarrow> token (run_ops p ops h) \<noteq> None)
       \<and> (\<exists>tk'. setToken p tk h' = perform (SuperSetToken tk') (perform (ToggleSidebar None) h'))
       \<and> sidebar (perform (ToggleSidebar None) h') = None
       \<and> (ops \<noteq> [] \<and> (last ops = CloseHud \<or> last ops = SetToken None) \<longrightarrow>
            sidebar (run_ops p ops h) = None \<and> token (run_ops p ops h) = None)"
proof (intro conjI)
  show "sidebar (run_ops p ops h) \<noteq> None \<longrightarrow> token (run_ops p ops h) \<noteq> None"
    using assms sidebar_run_ops [of ops p h] by (cases "ops = []") simp_all
  show "\<exists>tk'. setToken p tk h' = perform (SuperSetToken tk') (perform (ToggleSidebar None) h')"
    by (auto simp add: setToken_def Let_def split: option.splits)
  show "sidebar (perform (ToggleSidebar None) h') = None"
    by (rule sidebar_perform_toggle_None)
  show "ops \<noteq> [] \<and> (last ops = CloseHud \<or> last ops = SetToken None) \<longrightarrow>
            sidebar (run_ops p ops h) = None \<and> token (run_ops p ops h) = None"
  proof
    assume a: "ops \<noteq> [] \<and> (last ops = CloseHud \<or> last ops = SetToken None)"
    then obtain xs where ops: "ops = xs @ [last ops]"
      by (metis append_butlast_last_id)
    from a have "token (run_op p (last ops) (run_ops p xs h)) = None"
      by (auto simp add: perform_Close_fields setToken_def Let_def perform_super_fields)
    then have "token (run_ops p ops h) = None"
      using ops run_ops_append [of p xs "[last ops]" h] by simp
    then show "sidebar (run_ops p ops h) = None \<and> token (run_ops p ops h) = None"
      using a sidebar_run_ops [of ops p h] by simp
  qed
qed

theorem sidebar_invariant_witness:
  "sidebar (run_ops no_persistent [SetToken (Some foreign_token), CloseHud] open_hud) = None
   \<and> token (run_ops no_persistent [SetToken (Some foreign_token), CloseHud] open_hud) = None"
proof -
  have h: "sidebar open_hud \<noteq> None \<longrightarrow> token open_hud \<noteq> None"
    by (simp add: open_hud_def)
  show ?thesis
    using sidebar_invariant [OF h, where p = no_persistent
        and ops = "[SetToken (Some foreign_token), CloseHud]"]
    by simp
qed

subsection \<open>Closing on an event\<close>

text \<open>
  Claim C3. For every event and every value of its close setting: with "never"
  \<open>closeIf\<close> leaves the state as it is and returns false; with "all" it closes the HUD,
  sidebar included, and returns true; with "sidebar" it closes the sidebar, keeps the
  tracked token and returns true. It returns true exactly when it has issued a closing
  call (\<open>close()\<close> or \<open>toggleSidebar(null)\<close>).
\<close>

theorem closeIf_policy:
  "(getCloseSetting st (eventToSetting event) = Never \<longrightarrow>
      closeIf st eventToSetting event h = (h, False))
   \<and> (getCloseSetting st (eventToSetting event) = All \<longrightarrow>
        closeIf st eventToSetting event h = (perform Close h, True)
        \<and> token (fst (closeIf st eventToSetting event h)) = None
        \<and> sidebar (fst (closeIf st eventToSetting event h)) = None)
   \<and> (getCloseSetting st (eventToSetting event) = Sidebar \<longrightarrow>
        closeIf st eventToSetting event h = (perform (ToggleSidebar None) h, True)
        \<and> sidebar (fst (closeIf st eventToSetting event h)) = None
        \<and> token (fst (closeIf st eventToSetting event h)) = token h)
   \<and> (snd (closeIf st eventToSetting event h) \<longleftrightarrow>
        issued (fst (closeIf st eventToSetting event h)) \<noteq> issued h)"
  by (cases "getCloseSetting st (eventToSetting event)")
     (simp_all add: closeIf_def Let_def perform_Close_fields sidebar_perform_toggle_None
        token_perform_toggle issued_perform)

theorem closeIf_policy_witness:
  "closeIf sample_settings event_setting ''cast-spell'' open_hud
     = (perform (ToggleSidebar None) open_hud, True)
   \<and> closeIf sample_settings event_setting ''send-to-chat'' open_hud = (open_hud, False)"
  using closeIf_policy [where st = sample_settings and eventToSetting = event_setting
      and event = "''cast-spell''" and h = open_hud]
    closeIf_policy [where st = sample_settings and eventToSetting = event_setting
      and event = "''send-to-chat''" and h = open_hud]
  by (simp add: sample_settings_def event_setting_def)

subsection \<open>Rendering\<close>

lemma replaceHTML_mounted:
  assumes "mounted pg"
  shows "\<exists>e. mainElement (replaceHTML st fs result pg) = Some e
           \<and> content (replaceHTML st fs result pg) = [e]
           \<and> uid e = next_uid pg
           \<and> element_inputs e = concat (map inputs_of result)
           \<and> mounted (replaceHTML st fs result pg)"
proof (cases "mainElement pg")
  case None
  with assms have c: "content pg = []" by (simp add: mounted_def)
  show ?thesis using None c
    by (simp add: replaceHTML_def Let_def focused_name_def appendChild_def mounted_def
        element_inputs_def)
next
  case (Some old)
  with assms have c: "content pg = [old]" and u: "uid old < next_uid pg"
    by (auto simp add: mounted_def)
  show ?thesis using Some c u
    by (auto simp add: replaceHTML_def Let_def focus_def replaceWith_def mounted_def
        element_inputs_def split: option.splits)
qed

text \<open>
  Claim C4. When the stats header of the tracked actor has no health, the prepared
  context is the context of the base class without any stat block, the markup is empty,
  and the render still mounts the main element, with nothing inside, as the one child
  of the content element. The model of the render has no error branch and does not
  touch the tracked token.
\<close>

theorem render_without_health:
  assumes "hasActor pd" and "health (gsh (ctx_actor pd)) = None" and "mounted pg"
  shows "prepareContext gsh gas gse gsb tk pd = Base pd
       \<and> renderHTML rt (prepareContext gsh gas gse gsb tk pd) = []
       \<and> (\<exists>e. mainElement (render gsh gas gse gsb rt st fs tk pd pg) = Some e
              \<and> content (render gsh gas gse gsb rt st fs tk pd pg) = [e]
              \<and> element_inputs e = [])
       \<and> mounted (render gsh gas gse gsb rt st fs tk pd pg)"
proof -
  have p: "prepareContext gsh gas gse gsb tk pd = Base pd"
    using assms(1,2) by (simp add: prepareContext_def Let_def)
  have r: "renderHTML rt (prepareContext gsh gas gse gsb tk pd) = []"
    by (simp add: p renderHTML_def)
  have e: "render gsh gas gse gsb rt st fs tk pd pg = replaceHTML st fs [] pg"
    by (simp add: render_def r)
  from replaceHTML_mounted [OF assms(3), of st fs "[]"] p r e show ?thesis
    by auto
qed

theorem render_without_health_witness:
  "renderHTML one_input_template
     (prepareContext no_health_header no_block no_block no_block owned_token
        \<lparr>hasActor = True, ctx_actor = 0\<rparr>) = []
   \<and> mounted (render no_health_header no_block no_block no_block one_input_template
        sample_settings 14 owned_token \<lparr>hasActor = True, ctx_actor = 0\<rparr> focused_page)"
proof -
  have a: "hasActor \<lparr>hasActor = True, ctx_actor = (0::nat)\<rparr>"
    by simp
  have b: "health (no_health_header (ctx_actor \<lparr>hasActor = True, ctx_actor = (0::nat)\<rparr>)) = None"
    by (simp add: no_health_header_def)
  have c: "mounted focused_page"
    by (simp add: mounted_def focused_page_def old_main_def)
  show ?thesis
    using render_without_health [where pd = "\<lparr>hasActor = True, ctx_actor = 0\<rparr>"
        and gsh = no_health_header and pg = focused_page and gas = no_block and gse = no_block
        and gsb = no_block and tk = owned_token and rt = one_input_template
        and st = sample_settings and fs = 14, OF a b c]
    by blast
qed

text \<open>
  Claim C5. The input \<open>amount\<close> of the old main element has the focus and the new markup
  has an input of that name: \<open>_replaceHTML\<close> calls \<open>focus()\<close> on it while the new
  element is not yet in the document, so the call has no effect, and the replacement
  then removes the focused input. Afterwards no input has the focus; the content
  element holds the new main element alone.
\<close>

theorem replaceHTML_focus_lost:
  "activeElement (replaceHTML sample_settings 14 [Input ''amount''] focused_page) = None
   \<and> content (replaceHTML sample_settings 14 [Input ''amount''] focused_page)
       = [\<lparr>uid = 1, classList = [''exploded''], children = [Input ''amount'']\<rparr>]"
  by (simp add: replaceHTML_def Let_def focused_name_def element_inputs_def focus_def
      replaceWith_def sample_settings_def focused_page_def old_main_def)

subsection \<open>Positioning\<close>

text \<open>
  Claim C6. Without a tracked token or without the element, \<open>_updatePosition\<close> returns
  the position it was given and writes no style. With both, what it writes depends on
  the canvas, the token and the setting only: two calls that differ in the position
  passed in and in the styles found write the same geometry, and a second call on the
  result of the first changes nothing.
\<close>

theorem updatePosition_pure:
  "(element_style v = None \<or> tk = None \<longrightarrow> updatePosition canvas st tk v position = (v, position))
   \<and> (element_style v \<noteq> None \<and> element_style v' \<noteq> None
        \<and> (mainElement_style v = None \<longleftrightarrow> mainElement_style v' = None) \<longrightarrow>
        geometry (updatePosition canvas st (Some t) v position)
          = geometry (updatePosition canvas st (Some t) v' position'))
   \<and> updatePosition canvas st tk (fst (updatePosition canvas st tk v position))
         (snd (updatePosition canvas st tk v position))
       = updatePosition canvas st tk v position"
  by (cases "element_style v"; cases "element_style v'"; cases tk;
      cases "mainElement_style v"; cases "mainElement_style v'")
     (simp_all add: updatePosition_def geometry_def Let_def)

theorem updatePosition_pure_witness:
  "updatePosition sample_canvas sample_settings None
       \<lparr>element_style = Some stale_style, mainElement_style = Some stale_style\<rparr> stale_position
     = (\<lparr>element_style = Some stale_style, mainElement_style = Some stale_style\<rparr>, stale_position)
   \<and> geometry (updatePosition sample_canvas sample_settings (Some owned_token)
         \<lparr>element_style = Some empty_style, mainElement_style = Some empty_style\<rparr> empty_position)
     = geometry (updatePosition sample_canvas sample_settings (Some owned_token)
         \<lparr>element_style = Some stale_style, mainElement_style = Some stale_style\<rparr> stale_position)"
  using updatePosition_pure [where canvas = sample_canvas and st = sample_settings
      and tk = None and t = owned_token
      and v = "\<lparr>element_style = Some stale_style, mainElement_style = Some stale_style\<rparr>"
      and v' = "\<lparr>element_style = Some empty_style, mainElement_style = Some empty_style\<rparr>"
      and position = stale_position and position' = empty_position]
  by simp

subsection \<open>Clicks on the canvas\<close>

text \<open>
  Claim C7, as stated, fails: with the setting off, a click while an input has the
  focus closes nothing, the sidebar stays.
\<close>

theorem clickClose_counterexample:
  "sidebar (fst (clickClose sample_settings HTMLInputElement open_hud)) = Some ''actions''
   \<and> token (fst (clickClose sample_settings HTMLInputElement open_hud)) = Some owned_token"
  by (simp add: clickClose_def sample_settings_def open_hud_def)

text \<open>
  Claim C7, amended. With \<open>closeAllOnCLick\<close> on, a click closes the whole HUD. With it
  off, a click while an input or a text area has the focus only takes the focus away
  and closes nothing; otherwise a click while a sidebar shows closes the sidebar and
  keeps the tracked token, and a click without a sidebar closes the whole HUD.
\<close>

theorem clickClose_stages:
  "(closeAllOnCLick st \<longrightarrow>
      token (fst (clickClose st focused h)) = None \<and> sidebar (fst (clickClose st focused h)) = None)
   \<and> (\<not> closeAllOnCLick st \<and> (focused = HTMLInputElement \<or> focused = HTMLTextAreaElement) \<longrightarrow>
        clickClose st focused h = (h, OtherElement))
   \<and> (\<not> closeAllOnCLick st \<and> focused = OtherElement \<and> sidebar h \<noteq> None \<longrightarrow>
        sidebar (fst (clickClose st focused h)) = None
        \<and> token (fst (clickClose st focused h)) = token h)
   \<and> (\<not> closeAllOnCLick st \<and> focused = OtherElement \<and> sidebar h = None \<longrightarrow>
        token (fst (clickClose st focused h)) = None
        \<and> sidebar (fst (clickClose st focused h)) = None)"
  by (auto simp add: clickClose_def perform_Close_fields sidebar_perform_toggle_None
        token_perform_toggle)

theorem clickClose_stages_witness:
  "sidebar (fst (clickClose sample_settings OtherElement open_hud)) = None
   \<and> token (fst (clickClose sample_settings OtherElement open_hud)) = Some owned_token
   \<and> clickClose sample_settings HTMLTextAreaElement open_hud = (open_hud, OtherElement)"
  using clickClose_stages [where st = sample_settings and focused = OtherElement and h = open_hud]
    clickClose_stages [where st = sample_settings and focused = HTMLTextAreaElement
      and h = open_hud]
  by (simp add: sample_settings_def open_hud_def)

section \<open>Properties of the actions sidebar\<close>

subsection \<open>The action sections\<close>

lemma acts_Nil: "acts t [] = {}"
  by (simp add: acts_def)

lemma acts_Cons: "acts t (s # ss) = (if sec_type s = t then set (sec_actions s) else {}) \<union> acts t ss"
  by (auto simp add: acts_def)

lemma acts_push: "acts t' (push_action t d ss) = acts t' ss \<union> (if t' = t then {d} else {})"
proof (induction ss)
  case Nil
  show ?case by (cases "t' = t") (simp_all add: acts_Nil acts_Cons)
next
  case (Cons s ss)
  show ?case
  proof (cases "sec_type s = t")
    case True
    show ?thesis
    proof (cases "t' = t")
      case t: True
      have "acts t' (s\<lparr>sec_actions := sec_actions s @ [d]\<rparr> # ss)
              = insert d (set (sec_actions s) \<union> acts t' ss)"
        using True t by (simp add: acts_Cons)
      then show ?thesis using True t by (simp add: acts_Cons)
    next
      case f: False
      then show ?thesis using True by (simp add: acts_Cons)
    qed
  next
    case False
    have "acts t' (s # push_action t d ss)
            = (if sec_type s = t' then set (sec_actions s) else {}) \<union> acts t' (push_action t d ss)"
      by (rule acts_Cons)
    then show ?thesis using False Cons.IH by (simp add: acts_Cons Un_assoc)
  qed
qed

lemma types_push: "set (map sec_type (push_action t d ss)) = insert t (set (map sec_type ss))"
  by (induction ss) auto

lemma distinct_push:
  "distinct (map sec_type ss) \<Longrightarrow> distinct (map sec_type (push_action t d ss))"
proof (induction ss)
  case Nil
  then show ?case by simp
next
  case (Cons s ss)
  then show ?case using types_push [of t d ss] by auto
qed

lemma acts_collect:
  "acts t (collect tb gm a xs ss)
     = acts t ss \<union> {action_data tb gm a x | x. x \<in> set xs \<and> \<not> skipped tb a x \<and> section_type a x = t}"
proof (induction xs arbitrary: ss)
  case Nil
  then show ?case by simp
next
  case (Cons x xs)
  show ?case
  proof (cases "skipped tb a x")
    case True
    then show ?thesis using Cons.IH [of ss] by auto
  next
    case False
    then show ?thesis
      using Cons.IH [of "push_action (section_type a x) (action_data tb gm a x) ss"]
      by (auto simp add: acts_push)
  qed
qed

lemma types_collect:
  "set (map sec_type (collect tb gm a xs ss))
     = set (map sec_type ss) \<union> {section_type a x | x. x \<in> set xs \<and> \<not> skipped tb a x}"
proof (induction xs arbitrary: ss)
  case Nil
  then show ?case by simp
next
  case (Cons x xs)
  show ?case
  proof (cases "skipped tb a x")
    case True
    then show ?thesis using Cons.IH [of ss] by auto
  next
    case False
    then show ?thesis
      using Cons.IH [of "push_action (section_type a x) (action_data tb gm a x) ss"]
        types_push [of "section_type a x" "action_data tb gm a x" ss]
      by auto
  qed
qed

lemma distinct_collect:
  "distinct (map sec_type ss) \<Longrightarrow> distinct (map sec_type (collect tb gm a xs ss))"
  by (induction xs arbitrary: ss) (simp_all add: distinct_push)

lemma acts_notin: "t \<notin> set (map sec_type ss) \<Longrightarrow> acts t ss = {}"
  by (auto simp add: acts_def)

lemma acts_distinct:
  "distinct (map sec_type ss) \<Longrightarrow> s \<in> set ss \<Longrightarrow> acts (sec_type s) ss = set (sec_actions s)"
proof (induction ss)
  case Nil
  then show ?case by simp
next
  case (Cons x ss)
  show ?case
  proof (cases "s = x")
    case True
    with Cons.prems have "acts (sec_type s) ss = {}"
      by (intro acts_notin) simp
    with True show ?thesis by (simp add: acts_Cons)
  next
    case False
    with Cons.prems have m: "s \<in> set ss" and n: "sec_type x \<noteq> sec_type s"
      by auto
    from Cons.prems have "distinct (map sec_type ss)" by simp
    from Cons.IH [OF this m] n show ?thesis by (simp add: acts_Cons)
  qed
qed

lemma distinct_types_sort:
  assumes "distinct (map sec_type ss)"
  shows "distinct (map sec_type (sort_key f ss))"
proof -
  from assms have "distinct ss" and "inj_on sec_type (set ss)"
    by (simp_all add: distinct_map)
  then show ?thesis by (simp add: distinct_map)
qed
lemma actionSections_alt:
  "actionSections tb gm a
     = map sorted_names (sort_key (\<lambda>x. ACTION_TYPES_sort (sec_type x))
         (collect tb gm a (actorItems a (abilityTypes a)) []))"
  by (simp add: actionSections_def Let_def sorted_names_def)

lemma sec_type_sorted_names: "sec_type \<circ> sorted_names = sec_type"
  by (rule ext) (simp add: sorted_names_def)

text \<open>
  Claim C8, as stated, fails: an actor that is not a character has the kinetic-aura
  effect, and its elemental-blast action is listed all the same.
\<close>

theorem actionSections_counterexample:
  "map (map ad_id \<circ> sec_actions) (actionSections None no_macro aura_npc) = [[''blast'']]
   \<and> Some ''effect-kinetic-aura'' \<in> set (effect_slugs aura_npc)
   \<and> slug blast_item = Some ''elemental-blast''"
  by (simp add: actionSections_def Let_def actorItems_def abilityTypes_def isOfType_def aura_npc_def
      blast_item_def skipped_def hasKineticAura_def excludedUUIDS_def stances_def
      sourceId_def inParty_def isExploration_def section_type_def action_data_def)

text \<open>
  Claim C8, amended. The sections have distinct types and come in the order of the sort
  numbers of \<open>ACTION_TYPES\<close>; the actions of a section are sorted by name and are the
  entries of exactly those abilities of its type that the loop does not skip; every
  ability that is not skipped has its section. An ability is skipped when its source id
  is not empty and is the action UUID of a stance, and the elemental-blast ability is
  skipped when the actor is a character with the kineticist flag and a kinetic-aura
  effect.
\<close>

theorem actionSections_grouped:
  "distinct (map sec_type (actionSections tb gm a))
       \<and> sorted (map (\<lambda>x. ACTION_TYPES_sort (sec_type x)) (actionSections tb gm a))
       \<and> (\<forall>s \<in> set (actionSections tb gm a).
            sorted (map ad_name (sec_actions s))
            \<and> set (sec_actions s)
                = {action_data tb gm a x | x.
                     x \<in> set (actorItems a (abilityTypes a)) \<and> \<not> skipped tb a x \<and> section_type a x = sec_type s})
       \<and> (\<forall>x \<in> set (actorItems a (abilityTypes a)). \<not> skipped tb a x \<longrightarrow>
            section_type a x \<in> set (map sec_type (actionSections tb gm a)))
       \<and> (\<forall>x u. sourceId x = Some u \<and> u \<noteq> [] \<and> u \<in> set (excludedUUIDS tb a) \<longrightarrow> skipped tb a x)
       \<and> (\<forall>x. slug x = Some ''elemental-blast'' \<and> isOfType a [Character] \<and> flags_kineticist a
              \<and> Some ''effect-kinetic-aura'' \<in> set (effect_slugs a) \<longrightarrow> skipped tb a x)"
proof -
  let ?abilities = "actorItems a (abilityTypes a)"
  let ?c = "collect tb gm a ?abilities []"
  let ?k = "\<lambda>x. ACTION_TYPES_sort (sec_type x)"
  have eq: "actionSections tb gm a = map sorted_names (sort_key ?k ?c)"
    by (rule actionSections_alt)
  have types: "map sec_type (actionSections tb gm a) = map sec_type (sort_key ?k ?c)"
    by (simp add: eq sec_type_sorted_names)
  have dc: "distinct (map sec_type ?c)"
    by (rule distinct_collect) simp
  have d: "distinct (map sec_type (actionSections tb gm a))"
    unfolding types using dc by (rule distinct_types_sort)
  have "map ?k (actionSections tb gm a) = map ?k (sort_key ?k ?c)"
    by (simp add: eq sorted_names_def)
  then have s: "sorted (map ?k (actionSections tb gm a))"
    by simp
  have each: "\<forall>s \<in> set (actionSections tb gm a).
            sorted (map ad_name (sec_actions s))
            \<and> set (sec_actions s)
                = {action_data tb gm a x | x.
                     x \<in> set ?abilities \<and> \<not> skipped tb a x \<and> section_type a x = sec_type s}"
  proof
    fix s assume "s \<in> set (actionSections tb gm a)"
    then obtain s0 where s0: "s0 \<in> set ?c" and s: "s = sorted_names s0"
      by (auto simp add: eq)
    have "set (sec_actions s0) = acts (sec_type s0) ?c"
      using acts_distinct [OF dc s0] by simp
    also have "\<dots> = {action_data tb gm a x | x.
                     x \<in> set ?abilities \<and> \<not> skipped tb a x \<and> section_type a x = sec_type s0}"
      by (simp add: acts_collect acts_Nil)
    finally show "sorted (map ad_name (sec_actions s))
            \<and> set (sec_actions s)
                = {action_data tb gm a x | x.
                     x \<in> set ?abilities \<and> \<not> skipped tb a x \<and> section_type a x = sec_type s}"
      by (simp add: s sorted_names_def)
  qed
  have allin: "\<forall>x \<in> set ?abilities. \<not> skipped tb a x \<longrightarrow>
            section_type a x \<in> set (map sec_type (actionSections tb gm a))"
  proof -
    have "set (map sec_type (actionSections tb gm a)) = set (map sec_type ?c)"
      unfolding types by simp
    then show ?thesis using types_collect [of tb gm a ?abilities "[]"] by auto
  qed
  have ex1: "\<forall>x u. sourceId x = Some u \<and> u \<noteq> [] \<and> u \<in> set (excludedUUIDS tb a) \<longrightarrow> skipped tb a x"
    by (simp add: skipped_def)
  have ex2: "\<forall>x. slug x = Some ''elemental-blast'' \<and> isOfType a [Character] \<and> flags_kineticist a
              \<and> Some ''effect-kinetic-aura'' \<in> set (effect_slugs a) \<longrightarrow> skipped tb a x"
    by (auto simp add: skipped_def hasKineticAura_def find_None_iff)
  from d s each allin ex1 ex2 show ?thesis by (intro conjI)
qed

theorem actionSections_grouped_witness:
  "map sec_type (actionSections (Some sample_toolbelt) no_macro kineticist) = [Action, Reaction]
   \<and> map (map ad_name \<circ> sec_actions) (actionSections (Some sample_toolbelt) no_macro kineticist)
       = [[''Seek'', ''Step''], [''Aid'']]"
  using actionSections_grouped [where tb = "Some sample_toolbelt" and gm = no_macro
      and a = kineticist]
  by (simp add: actionSections_def Let_def actorItems_def abilityTypes_def isOfType_def kineticist_def
      blast_item_def stance_item_def seek_item_def step_item_def aid_item_def
      sample_toolbelt_def skipped_def hasKineticAura_def excludedUUIDS_def stances_def
      sourceId_def inParty_def isExploration_def section_type_def action_data_def
      usage_def shown_frequency_def no_macro_def explorations_def)

subsection \<open>Toggling a weapon trait\<close>

text \<open>
  Claim C9. The handler ends in the error "Unexpected failure while toggling weapon
  trait", with no update, when the trait is double-barrel and the weapon is missing or
  lacks that trait, when the trait is versatile and the weapon is missing or the
  selection is neither null nor a damage type, and when the trait is anything else.
  It issues the update in the two remaining cases only.
\<close>

theorem toggleWeaponTrait_fatal:
  "(dataset_trait b = Some ''double-barrel''
      \<and> (\<forall>wp. w = Some wp \<longrightarrow> ''double-barrel'' \<notin> set (weapon_traits wp)) \<longrightarrow>
      toggleWeaponTrait dts w b = Inl (ErrorPF2e ''Unexpected failure while toggling weapon trait''))
   \<and> (dataset_trait b = Some ''versatile''
        \<and> (w = None \<or> (versatile_selected w b \<noteq> Null
                        \<and> (\<forall>s. versatile_selected w b = Str s \<longrightarrow> s \<notin> set dts))) \<longrightarrow>
      toggleWeaponTrait dts w b = Inl (ErrorPF2e ''Unexpected failure while toggling weapon trait''))
   \<and> (dataset_trait b \<noteq> Some ''double-barrel'' \<and> dataset_trait b \<noteq> Some ''versatile'' \<longrightarrow>
      toggleWeaponTrait dts w b = Inl (ErrorPF2e ''Unexpected failure while toggling weapon trait''))
   \<and> (dataset_trait b = Some ''double-barrel''
        \<and> w = Some wp \<and> ''double-barrel'' \<in> set (weapon_traits wp) \<longrightarrow>
      toggleWeaponTrait dts w b
        = Inr \<lparr>update_trait = ''double-barrel'',
               update_selected = SelectedFlag (\<not> doubleBarrel_selected wp)\<rparr>)
   \<and> (dataset_trait b = Some ''versatile'' \<and> w \<noteq> None
        \<and> (versatile_selected w b = Null
            \<or> (\<exists>s. versatile_selected w b = Str s \<and> s \<in> set dts)) \<longrightarrow>
      toggleWeaponTrait dts w b
        = Inr \<lparr>update_trait = ''versatile'',
               update_selected = SelectedType (versatile_selected w b)\<rparr>)"
  by (cases w; cases "versatile_selected w b")
     (auto simp add: toggleWeaponTrait_def Let_def)

theorem toggleWeaponTrait_fatal_witness:
  "toggleWeaponTrait [''piercing'', ''slashing''] (Some musket) double_barrel_button
     = Inl (ErrorPF2e ''Unexpected failure while toggling weapon trait'')
   \<and> toggleWeaponTrait [''piercing'', ''slashing''] (Some musket) versatile_button
     = Inr \<lparr>update_trait = ''versatile'', update_selected = SelectedType (Str ''slashing'')\<rparr>"
  using toggleWeaponTrait_fatal [where dts = "[''piercing'', ''slashing'']" and w = "Some musket"
      and b = double_barrel_button and wp = musket]
    toggleWeaponTrait_fatal [where dts = "[''piercing'', ''slashing'']" and w = "Some musket"
      and b = versatile_button and wp = musket]
  by (simp add: musket_def double_barrel_button_def versatile_button_def versatile_selected_def)

subsection \<open>Using an action\<close>

lemma update_other:
  "find (\<lambda>it. item_id it = i) (update_frequency_value i v items)
     = map_option (\<lambda>it. it\<lparr>frequency := map_option (\<lambda>f. f\<lparr>freq_value := v\<rparr>) (frequency it)\<rparr>)
         (find (\<lambda>it. item_id it = i) items)"
  by (induction items) (simp_all add: update_frequency_value_def)

lemma update_nonneg:
  assumes "0 \<le> v" and "\<forall>it \<in> set items. \<forall>f. frequency it = Some f \<longrightarrow> 0 \<le> freq_value f"
  shows "\<forall>it \<in> set (update_frequency_value i v items). \<forall>f. frequency it = Some f \<longrightarrow> 0 \<le> freq_value f"
  using assms by (auto simp add: update_frequency_value_def)

text \<open>
  Claim C10. For a feat or action item found by its id: a frequency with a maximum and
  a value above zero is stored again with the value less one; with a value of zero, or
  without a maximum or a frequency, the items stay as they are and no update is issued;
  and if no stored value was negative before, none is negative afterwards.
\<close>

theorem useAction_frequency:
  assumes "find (\<lambda>x. item_id x = itemId) items = Some it"
    and "item_type it = FeatItem \<or> item_type it = ActionItem"
  shows "(\<forall>f. frequency it = Some f \<and> freq_max f \<noteq> 0 \<and> 0 < freq_value f \<longrightarrow>
            ItemUpdate itemId (freq_value f - 1) \<in> set (snd (useAction tb gm items itemId))
            \<and> find (\<lambda>x. item_id x = itemId) (fst (useAction tb gm items itemId))
                = Some (it\<lparr>frequency := Some (f\<lparr>freq_value := freq_value f - 1\<rparr>)\<rparr>))
       \<and> ((\<forall>f. frequency it = Some f \<longrightarrow> freq_max f = 0 \<or> freq_value f = 0) \<longrightarrow>
            fst (useAction tb gm items itemId) = items
            \<and> (\<forall>i v. ItemUpdate i v \<notin> set (snd (useAction tb gm items itemId))))
       \<and> ((\<forall>x \<in> set items. \<forall>f. frequency x = Some f \<longrightarrow> 0 \<le> freq_value f) \<longrightarrow>
            (\<forall>x \<in> set (fst (useAction tb gm items itemId)).
               \<forall>f. frequency x = Some f \<longrightarrow> 0 \<le> freq_value f))"
proof (intro conjI allI impI)
  fix f assume f: "frequency it = Some f \<and> freq_max f \<noteq> 0 \<and> 0 < freq_value f"
  then show "ItemUpdate itemId (freq_value f - 1) \<in> set (snd (useAction tb gm items itemId))"
    using assms by (auto simp add: useAction_def Let_def split: option.splits)
  from f show "find (\<lambda>x. item_id x = itemId) (fst (useAction tb gm items itemId))
                = Some (it\<lparr>frequency := Some (f\<lparr>freq_value := freq_value f - 1\<rparr>)\<rparr>)"
    using assms by (auto simp add: useAction_def Let_def update_other split: option.splits)
next
  assume z: "\<forall>f. frequency it = Some f \<longrightarrow> freq_max f = 0 \<or> freq_value f = 0"
  then show "fst (useAction tb gm items itemId) = items"
    using assms by (auto simp add: useAction_def Let_def split: option.splits)
  fix i v
  from z show "ItemUpdate i v \<notin> set (snd (useAction tb gm items itemId))"
    using assms by (auto simp add: useAction_def Let_def split: option.splits)
next
  assume n: "\<forall>x \<in> set items. \<forall>f. frequency x = Some f \<longrightarrow> 0 \<le> freq_value f"
  have itin: "it \<in> set items"
    using assms(1) by (metis find_Some_iff nth_mem)
  show "\<forall>x \<in> set (fst (useAction tb gm items itemId)).
               \<forall>f. frequency x = Some f \<longrightarrow> 0 \<le> freq_value f"
  proof (cases "frequency it")
    case None
    then show ?thesis using assms n by (auto simp add: useAction_def Let_def split: option.splits)
  next
    case (Some f)
    with n itin have fv: "0 \<le> freq_value f" by blast
    show ?thesis
    proof (cases "freq_max f \<noteq> 0 \<and> freq_value f \<noteq> 0")
      case True
      with fv have "0 \<le> freq_value f - 1" by simp
      from update_nonneg [OF this n, of itemId]
      have u: "\<forall>x \<in> set (update_frequency_value itemId (freq_value f - 1) items).
                 \<forall>g. frequency x = Some g \<longrightarrow> 0 \<le> freq_value g" .
      have "fst (useAction tb gm items itemId) = update_frequency_value itemId (freq_value f - 1) items"
        using assms Some True by (auto simp add: useAction_def Let_def split: option.splits)
      with u show ?thesis by simp
    next
      case False
      then have "fst (useAction tb gm items itemId) = items"
        using assms Some by (auto simp add: useAction_def Let_def split: option.splits)
      with n show ?thesis by simp
    qed
  qed
qed

theorem useAction_frequency_witness:
  "map frequency (fst (useAction None no_macro [aid_item] ''aid''))
     = [Some \<lparr>freq_max = 3, freq_value = 1, freq_per = ''day''\<rparr>]
   \<and> snd (useAction None no_macro [aid_item] ''aid'') = [ItemUpdate ''aid'' 1, ToMessage ''aid'']"
proof -
  have a: "find (\<lambda>x. item_id x = ''aid'') [aid_item] = Some aid_item"
    by (simp add: aid_item_def)
  have b: "item_type aid_item = FeatItem \<or> item_type aid_item = ActionItem"
    by (simp add: aid_item_def)
  show ?thesis
    using useAction_frequency [OF a b, where tb = None and gm = no_macro]
    by (simp add: useAction_def Let_def aid_item_def update_frequency_value_def)
qed

end
